theory Spec2Isabelle
  imports Complex_Main
begin

section \<open>The store: the \<open>users\<close> and \<open>transactions\<close> tables\<close>

text \<open>
  \<open>server.js\<close> keeps its state in two PostgreSQL tables, reached through \<open>pool.query\<close>
  and \<open>clientDb.query\<close>. A row of \<open>users\<close> carries the columns the handlers read or
  write; \<open>uid\<close> is the column \<open>id\<close> and \<open>tx_type\<close> the column \<open>type\<close> (both names are
  taken in HOL). Integer columns are \<open>int\<close> and hold a value in every row;
  \<open>last_recharge_date\<close> is the time value, in milliseconds, of the JavaScript \<open>Date\<close> the
  driver hands back for the column.
\<close>

record user_row =
  uid :: nat
  email :: string
  password_hash :: string
  role :: string
  age :: int
  credits :: int
  last_recharge_date :: int

record transaction_row =
  user_id :: nat
  amount :: int
  description :: string
  tx_type :: string

record database =
  users :: "user_row list"
  transactions :: "transaction_row list"

text \<open>
  Every call a handler awaits on a collaborator. A handler's trace is the list of the
  calls it made, in program order; \<open>throws\<close> (a parameter of every handler) says which
  calls reject.
\<close>

datatype call =
    SelectUser | BcryptCompare | UpdateRecharge | JwtSign
  | SelectCredits | Fetch | Connect | Begin | UpdateCredits | InsertTransaction
  | Commit | Rollback | Release

datatype result = Text string | Parsed string

datatype body =
    Error string
  | LoggedIn string user_row "string option"
  | Generated result int

text \<open>
  What the caller gets: \<open>res.status(n).json(b)\<close>, or nothing at all when the exception
  leaves the handler (lines 96 and 97 of \<open>/ai/generate\<close> are outside the \<open>try\<close>).
\<close>

datatype outcome = Response nat body | Unhandled

subsection \<open>The SQL statements\<close>

text \<open>\<open>UPDATE users SET credits = credits - $1 WHERE id = $2\<close>\<close>

definition update_credits :: "int \<Rightarrow> nat \<Rightarrow> database \<Rightarrow> database" where
  "update_credits c i d =
     d\<lparr>users := map (\<lambda>u. if uid u = i then u\<lparr>credits := credits u - c\<rparr> else u) (users d)\<rparr>"

text \<open>\<open>INSERT INTO transactions (user_id, amount, description, type) VALUES ($1, $2, $3, 'usage')\<close>\<close>

definition insert_transaction :: "nat \<Rightarrow> int \<Rightarrow> string \<Rightarrow> string \<Rightarrow> database \<Rightarrow> database" where
  "insert_transaction i a s k d =
     d\<lparr>transactions := transactions d @
        [\<lparr>user_id = i, amount = a, description = s, tx_type = k\<rparr>]\<rparr>"

text \<open>\<open>UPDATE users SET credits = 100, last_recharge_date = CURRENT_DATE WHERE id = $1\<close>;
  \<open>cd\<close> is the store's \<open>CURRENT_DATE\<close>.\<close>

definition update_recharge :: "int \<Rightarrow> nat \<Rightarrow> database \<Rightarrow> database" where
  "update_recharge cd i d =
     d\<lparr>users := map (\<lambda>u. if uid u = i then u\<lparr>credits := 100, last_recharge_date := cd\<rparr> else u)
                   (users d)\<rparr>"

text \<open>\<open>SELECT credits FROM users WHERE id = $1\<close>: the \<open>credits\<close> of the matching rows.\<close>

definition select_credits :: "nat \<Rightarrow> database \<Rightarrow> int list" where
  "select_credits i d = map credits (filter (\<lambda>u. uid u = i) (users d))"

text \<open>\<open>SELECT * FROM users WHERE email = $1\<close>\<close>

definition select_user :: "string \<Rightarrow> database \<Rightarrow> user_row list" where
  "select_user e d = filter (\<lambda>u. email u = e) (users d)"

subsection \<open>A connection with a transaction\<close>

text \<open>
  \<open>clientDb\<close> is one connection. \<open>BEGIN\<close> opens a transaction on a working copy of the
  committed store, statements inside it change the working copy only, \<open>COMMIT\<close> installs
  it and \<open>ROLLBACK\<close> drops it. Outside a transaction a statement commits by itself.
\<close>

record session =
  committed :: database
  working :: "database option"

definition begin_tx :: "session \<Rightarrow> session" where
  "begin_tx s = s\<lparr>working := Some (committed s)\<rparr>"

definition statement :: "(database \<Rightarrow> database) \<Rightarrow> session \<Rightarrow> session" where
  "statement f s =
     (case working s of
        None \<Rightarrow> s\<lparr>committed := f (committed s)\<rparr>
      | Some w \<Rightarrow> s\<lparr>working := Some (f w)\<rparr>)"

definition commit_tx :: "session \<Rightarrow> session" where
  "commit_tx s =
     (case working s of
        None \<Rightarrow> s
      | Some w \<Rightarrow> \<lparr>committed = w, working = None\<rparr>)"

definition rollback_tx :: "session \<Rightarrow> session" where
  "rollback_tx s = s\<lparr>working := None\<rparr>"

section \<open>\<open>POST /auth/login\<close>: the automatic recharge\<close>

text \<open>
  Line 70: \<open>Math.ceil(Math.abs(today - last) / (1000 * 60 * 60 * 24))\<close>. The operands are
  time values in milliseconds. The quotient is taken in the reals; the source's double
  arithmetic gives the same integer as long as the difference is below \<open>2 ^ 53\<close>, which
  holds for every pair of dates a \<open>Date\<close> can hold on the same side of the epoch.
\<close>

definition diffDays :: "int \<Rightarrow> int \<Rightarrow> int" where
  "diffDays today lst = \<lceil>real_of_int \<bar>today - lst\<bar> / (1000 * 60 * 60 * 24)\<rceil>"

text \<open>Line 74, the condition of the \<open>if\<close>.\<close>

definition recharge_due :: "user_row \<Rightarrow> int \<Rightarrow> bool" where
  "recharge_due u today =
     ((age u > 60 \<and> diffDays today (last_recharge_date u) \<ge> 180) \<or>
      (age u \<le> 60 \<and> diffDays today (last_recharge_date u) \<ge> 365))"

text \<open>
  The handler, lines 59 to 89. \<open>e\<close> is \<open>email.toLowerCase().trim()\<close>, \<open>pw\<close> the password
  of the request; \<open>compare\<close> is \<open>bcrypt.compare\<close> and \<open>sign\<close> is \<open>jwt.sign\<close> on the
  row's \<open>id\<close> and \<open>role\<close>; \<open>today\<close> is the time value of \<open>new Date()\<close> and \<open>cd\<close> the store's
  \<open>CURRENT_DATE\<close>. Every exception inside the \<open>try\<close> ends in the 500 of line 87. The
  row in the body is the \<open>user\<close> object of the handler, whose \<open>password_hash\<close> the
  response blanks and whose \<open>credits\<close> line 76 sets. The result is the response, the
  store afterwards and the trace.
\<close>

definition login ::
  "(call \<Rightarrow> bool) \<Rightarrow> (string \<Rightarrow> string \<Rightarrow> bool) \<Rightarrow> (nat \<Rightarrow> string \<Rightarrow> string) \<Rightarrow> int \<Rightarrow> int \<Rightarrow>
   string \<Rightarrow> string \<Rightarrow> database \<Rightarrow> outcome \<times> database \<times> call list" where
  "login throws compare sign today cd e pw d =
     (if throws SelectUser then (Response 500 (Error ''Erro interno.''), d, [SelectUser])
      else case select_user e d of
        [] \<Rightarrow> (Response 400 (Error ''Usuario nao encontrado.''), d, [SelectUser])
      | u # _ \<Rightarrow>
          if throws BcryptCompare
          then (Response 500 (Error ''Erro interno.''), d, [SelectUser, BcryptCompare])
          else if compare pw (password_hash u) then
            (if recharge_due u today then
               (if throws UpdateRecharge
                then (Response 500 (Error ''Erro interno.''), d,
                      [SelectUser, BcryptCompare, UpdateRecharge])
                else if throws JwtSign
                then (Response 500 (Error ''Erro interno.''), update_recharge cd (uid u) d,
                      [SelectUser, BcryptCompare, UpdateRecharge, JwtSign])
                else (Response 200
                        (LoggedIn (sign (uid u) (role u))
                           (u\<lparr>credits := 100, password_hash := []\<rparr>)
                           (Some ''Sua cota SUS foi renovada!'')),
                      update_recharge cd (uid u) d,
                      [SelectUser, BcryptCompare, UpdateRecharge, JwtSign]))
             else
               (if throws JwtSign
                then (Response 500 (Error ''Erro interno.''), d,
                      [SelectUser, BcryptCompare, JwtSign])
                else (Response 200
                        (LoggedIn (sign (uid u) (role u)) (u\<lparr>password_hash := []\<rparr>) None),
                      d, [SelectUser, BcryptCompare, JwtSign])))
          else (Response 403 (Error ''Senha incorreta.''), d, [SelectUser, BcryptCompare]))"

section \<open>\<open>POST /ai/generate\<close>: the credit check, the generation and the debit\<close>

text \<open>The body of the request and \<open>req.user.id\<close>, set by \<open>authenticateToken\<close>.\<close>

record generate_request =
  req_user :: nat
  prompt :: string
  cost :: int
  isJson :: bool

text \<open>
  Lines 96 and 97. The \<open>SELECT\<close> and the read of \<open>rows[0].credits\<close> are outside the
  \<open>try\<close>: a rejected query, or no row for the id, leaves the handler as an exception.
  Otherwise the request is refused with 402 when \<open>credits < cost\<close>, and goes on with the
  credits it has read.
\<close>

definition check_credits :: "(call \<Rightarrow> bool) \<Rightarrow> generate_request \<Rightarrow> database \<Rightarrow> outcome + int" where
  "check_credits throws r d =
     (if throws SelectCredits then Inl Unhandled
      else case select_credits (req_user r) d of
        [] \<Rightarrow> Inl Unhandled
      | c # _ \<Rightarrow>
          if c < cost r then Inl (Response 402 (Error ''Creditos insuficientes.''))
          else Inr c)"

text \<open>
  Lines 100 to 120. \<open>reply\<close> is \<open>data.candidates?.[0]?.content?.parts?.[0]?.text\<close>
  (\<open>None\<close> for \<open>undefined\<close>); \<open>!txt\<close> holds for \<open>undefined\<close> and for the empty string.
  \<open>parse\<close> is \<open>JSON.parse\<close> after the fences are stripped, \<open>None\<close> when it throws, in
  which case the text is returned as it is. \<open>None\<close> as a result is the exception that
  line 137 catches.
\<close>

definition generate ::
  "(call \<Rightarrow> bool) \<Rightarrow> string option \<Rightarrow> (string \<Rightarrow> string option) \<Rightarrow> generate_request \<Rightarrow> result option" where
  "generate throws reply parse r =
     (if throws Fetch then None
      else case reply of
        None \<Rightarrow> None
      | Some txt \<Rightarrow>
          if txt = [] then None
          else if isJson r then
            (case parse txt of
               Some j \<Rightarrow> Some (Parsed j)
             | None \<Rightarrow> Some (Text txt))
          else Some (Text txt))"

text \<open>
  Lines 123 to 136. After \<open>pool.connect\<close> the four statements run in order on the
  connection; the first one that rejects sends control to the \<open>catch\<close>, which rolls back
  and rethrows, and \<open>finally\<close> releases the connection. A \<open>ROLLBACK\<close> that itself rejects
  leaves the transaction to the store, which drops it with the connection. The result
  is the flag that says whether \<open>COMMIT\<close> was reached, the session of the connection as
  \<open>release\<close> hands it back to the pool, and the trace. When \<open>pool.connect\<close> rejects
  there is no connection, and the session is the store as it stands.
\<close>

definition abort :: "session \<Rightarrow> call list \<Rightarrow> bool \<times> session \<times> call list" where
  "abort s tr = (False, rollback_tx s, tr @ [Rollback, Release])"

definition debit_session ::
  "(call \<Rightarrow> bool) \<Rightarrow> generate_request \<Rightarrow> database \<Rightarrow> bool \<times> session \<times> call list" where
  "debit_session throws r d =
     (if throws Connect then (False, \<lparr>committed = d, working = None\<rparr>, [Connect])
      else
        let s0 = \<lparr>committed = d, working = None\<rparr> in
        if throws Begin then abort s0 [Connect, Begin]
        else
          let s1 = begin_tx s0 in
          if throws UpdateCredits then abort s1 [Connect, Begin, UpdateCredits]
          else
            let s2 = statement (update_credits (cost r) (req_user r)) s1 in
            if throws InsertTransaction
            then abort s2 [Connect, Begin, UpdateCredits, InsertTransaction]
            else
              let s3 = statement
                         (insert_transaction (req_user r) (- cost r) ''Uso IA'' ''usage'') s2 in
              if throws Commit
              then abort s3 [Connect, Begin, UpdateCredits, InsertTransaction, Commit]
              else (True, commit_tx s3,
                    [Connect, Begin, UpdateCredits, InsertTransaction, Commit, Release]))"

text \<open>
  The debit as the rest of the handler and every other connection see it: the flag, the
  committed store and the trace.
\<close>

definition debit :: "(call \<Rightarrow> bool) \<Rightarrow> generate_request \<Rightarrow> database \<Rightarrow> bool \<times> database \<times> call list" where
  "debit throws r d =
     (case debit_session throws r d of (ok, s, tr) \<Rightarrow> (ok, committed s, tr))"

text \<open>
  What follows the credit check (lines 99 to 140), given the credits \<open>c\<close> that line 96
  read: the generation first, then the debit, then the response with
  \<open>new_credits = c - cost\<close>.
\<close>

definition generate_and_debit ::
  "(call \<Rightarrow> bool) \<Rightarrow> string option \<Rightarrow> (string \<Rightarrow> string option) \<Rightarrow> generate_request \<Rightarrow> int \<Rightarrow>
   database \<Rightarrow> outcome \<times> database \<times> call list" where
  "generate_and_debit throws reply parse r c d =
     (case generate throws reply parse r of
        None \<Rightarrow> (Response 500 (Error ''Erro ao processar IA.''), d, [Fetch])
      | Some final \<Rightarrow>
          (case debit throws r d of
             (True, d', tr) \<Rightarrow> (Response 200 (Generated final (c - cost r)), d', Fetch # tr)
           | (False, d', tr) \<Rightarrow> (Response 500 (Error ''Erro ao processar IA.''), d', Fetch # tr)))"

text \<open>The handler, lines 92 to 141.\<close>

definition ai_generate ::
  "(call \<Rightarrow> bool) \<Rightarrow> string option \<Rightarrow> (string \<Rightarrow> string option) \<Rightarrow> generate_request \<Rightarrow>
   database \<Rightarrow> outcome \<times> database \<times> call list" where
  "ai_generate throws reply parse r d =
     (case check_credits throws r d of
        Inl out \<Rightarrow> (out, d, [SelectCredits])
      | Inr c \<Rightarrow>
          (case generate_and_debit throws reply parse r c d of
             (out, d', tr) \<Rightarrow> (out, d', SelectCredits # tr)))"

text \<open>
  The calls of the \<open>try\<close> block of lines 123 to 129 whose rejection sends the debit to
  its \<open>catch\<close>, with \<open>pool.connect\<close> before it.
\<close>

definition tx_fault :: "(call \<Rightarrow> bool) \<Rightarrow> bool" where
  "tx_fault throws =
     (throws Connect \<or> throws Begin \<or> throws UpdateCredits \<or> throws InsertTransaction \<or>
      throws Commit)"

section \<open>Requests in flight together\<close>

text \<open>
  An \<open>async\<close> handler gives up control at every \<open>await\<close>, so the handlers of two
  requests interleave there. On the store a run of \<open>/ai/generate\<close> is two actions: the
  \<open>SELECT\<close> of line 96 with the check of line 97, and, after the generation, the
  transaction of lines 125 to 128, whose row lock makes it a single action for every
  other connection. A request is \<open>Waiting\<close> before the first, \<open>Checked c\<close> between the
  two (holding the credits \<open>c\<close> it has read), and \<open>Finished\<close> with its response.
\<close>

datatype progress = Waiting | Checked int | Finished outcome

definition step ::
  "(call \<Rightarrow> bool) \<Rightarrow> string option \<Rightarrow> (string \<Rightarrow> string option) \<Rightarrow> generate_request \<Rightarrow>
   progress \<Rightarrow> database \<Rightarrow> progress \<times> database" where
  "step throws reply parse r p d =
     (case p of
        Waiting \<Rightarrow>
          (case check_credits throws r d of
             Inl out \<Rightarrow> (Finished out, d)
           | Inr c \<Rightarrow> (Checked c, d))
      | Checked c \<Rightarrow>
          (case generate_and_debit throws reply parse r c d of
             (out, d', tr) \<Rightarrow> (Finished out, d'))
      | Finished out \<Rightarrow> (Finished out, d))"

text \<open>
  A schedule names, action after action, the request that moves next; \<open>run\<close> plays it
  on the requests in flight and the store they share.
\<close>

fun run ::
  "(call \<Rightarrow> bool) \<Rightarrow> string option \<Rightarrow> (string \<Rightarrow> string option) \<Rightarrow> nat list \<Rightarrow>
   (generate_request \<times> progress) list \<times> database \<Rightarrow> (generate_request \<times> progress) list \<times> database" where
  "run throws reply parse [] (ps, d) = (ps, d)"
| "run throws reply parse (i # sched) (ps, d) =
     (if i < length ps then
        (case step throws reply parse (fst (ps ! i)) (snd (ps ! i)) d of
           (p', d') \<Rightarrow> run throws reply parse sched (ps[i := (fst (ps ! i), p')], d'))
      else run throws reply parse sched (ps, d))"

section \<open>The ledger as the specification words it\<close>

text \<open>
  The eligibility window of the Recharge Policy, in the specification's words: 180 days
  when \<open>ageYears > 60\<close>, 365 days otherwise.
\<close>

definition window :: "int \<Rightarrow> int" where
  "window a = (if a > 60 then 180 else 365)"

text \<open>
  The ledger invariant, in the specification's words: for every account, the balance is
  the starting grant plus the sum of the amounts of the account's Transaction Records.
\<close>

definition ledger_sum :: "nat \<Rightarrow> database \<Rightarrow> int" where
  "ledger_sum i d = sum_list (map amount (filter (\<lambda>t. user_id t = i) (transactions d)))"

definition balanced :: "int \<Rightarrow> database \<Rightarrow> bool" where
  "balanced grant d = list_all (\<lambda>u. credits u = grant + ledger_sum (uid u) d) (users d)"

section \<open>Sample stores and requests\<close>

definition ana :: user_row where
  "ana = \<lparr>uid = 1, email = ''ana@sus.br'', password_hash = ''$2b$10$ana'', role = ''user'',
          age = 70, credits = 100, last_recharge_date = 0\<rparr>"

definition store :: "int \<Rightarrow> database" where
  "store c = \<lparr>users = [ana\<lparr>credits := c\<rparr>], transactions = []\<rparr>"

definition request :: "int \<Rightarrow> generate_request" where
  "request c = \<lparr>req_user = 1, prompt = ''Resuma o exame'', cost = c, isJson = False\<rparr>"

definition no_fault :: "call \<Rightarrow> bool" where
  "no_fault c = False"

definition no_json :: "string \<Rightarrow> string option" where
  "no_json txt = None"

text \<open>A \<open>bcrypt.compare\<close> that accepts the password and a \<open>jwt.sign\<close>.\<close>

definition accept :: "string \<Rightarrow> string \<Rightarrow> bool" where
  "accept pw h = True"

definition token :: "nat \<Rightarrow> string \<Rightarrow> string" where
  "token i rl = ''jwt''"

text \<open>\<open>n\<close> requests of cost \<open>k\<close> on the sample account, none started yet.\<close>

definition in_flight :: "nat \<Rightarrow> int \<Rightarrow> (generate_request \<times> progress) list" where
  "in_flight n k = replicate n (request k, Waiting)"

text \<open>The record that a debit of \<open>k\<close> on the sample account inserts.\<close>

definition usage_record :: "int \<Rightarrow> transaction_row" where
  "usage_record k = \<lparr>user_id = 1, amount = - k, description = ''Uso IA'', tx_type = ''usage''\<rparr>"

text \<open>
  The store with other ages and last recharge dates: every row gets the age \<open>a\<close> and the
  date \<open>l\<close> give for its id, and keeps the rest.
\<close>

definition restamp :: "(nat \<Rightarrow> int) \<Rightarrow> (nat \<Rightarrow> int) \<Rightarrow> database \<Rightarrow> database" where
  "restamp a l d =
     d\<lparr>users := map (\<lambda>u. u\<lparr>age := a (uid u), last_recharge_date := l (uid u)\<rparr>) (users d)\<rparr>"

section \<open>The recharge decision\<close>

lemma ceil_div_bounds:
  fixes a d :: int
  assumes "0 < d"
  shows "d * (- (- a div d) - 1) < a \<and> a \<le> d * (- (- a div d))"
proof -
  have eq: "- a = d * (- a div d) + (- a) mod d"
    by simp
  have lo: "0 \<le> (- a) mod d" and hi: "(- a) mod d < d"
    using assms by simp_all
  have "d * (- (- a div d) - 1) = - (d * (- a div d)) - d"
    by (simp add: algebra_simps)
  moreover have "d * (- (- a div d)) = - (d * (- a div d))"
    by simp
  ultimately show ?thesis
    using eq lo hi by linarith
qed

lemma diffDays_div: "diffDays today l = - (- \<bar>today - l\<bar> div 86400000)"
proof -
  have "diffDays today l = \<lceil>real_of_int \<bar>today - l\<bar> / real_of_int 86400000\<rceil>"
    by (simp add: diffDays_def)
  then show ?thesis
    by (simp only: ceiling_divide_eq_div)
qed

lemma diffDays_bounds:
  "86400000 * (diffDays today l - 1) < \<bar>today - l\<bar> \<and> \<bar>today - l\<bar> \<le> 86400000 * diffDays today l"
  unfolding diffDays_div by (rule ceil_div_bounds) simp

lemma diffDays_nonneg: "0 \<le> diffDays today l"
proof -
  have "0 \<le> real_of_int \<bar>today - l\<bar> / (1000 * 60 * 60 * 24)"
    by simp
  then show ?thesis
    unfolding diffDays_def by (simp only: zero_le_ceiling)
qed

text \<open>
  Claim C4. The number of elapsed days is the ceiling of the absolute difference of the
  two time values in days (the least number of whole days, of 86400000 ms each, that
  covers it, so never negative), and the account is due for a recharge exactly when the
  elapsed days reach the window: 180 days above 60 years of age, 365 days otherwise, so
  365 days at 60 years exactly.
\<close>

theorem recharge_decision:
  "(recharge_due u today \<longleftrightarrow> window (age u) \<le> diffDays today (last_recharge_date u))
   \<and> 86400000 * (diffDays today l - 1) < \<bar>today - l\<bar>
   \<and> \<bar>today - l\<bar> \<le> 86400000 * diffDays today l
   \<and> 0 \<le> diffDays today l
   \<and> window 60 = 365"
  using diffDays_bounds [of today l] diffDays_nonneg [of today l]
  by (auto simp: recharge_due_def window_def)

section \<open>The debit transaction\<close>

lemma debit_commits:
  assumes "\<not> tx_fault throws"
  shows "debit throws r d =
    (True,
     insert_transaction (req_user r) (- cost r) ''Uso IA'' ''usage''
       (update_credits (cost r) (req_user r) d),
     [Connect, Begin, UpdateCredits, InsertTransaction, Commit, Release])"
  using assms
  by (simp add: tx_fault_def debit_def debit_session_def begin_tx_def statement_def commit_tx_def Let_def)

lemma debit_rolls_back:
  assumes "tx_fault throws"
  shows "fst (debit throws r d) = False \<and> fst (snd (debit throws r d)) = d"
  using assms
  by (auto simp: tx_fault_def debit_def debit_session_def abort_def rollback_tx_def begin_tx_def statement_def
      Let_def)

lemma debit_session_commits:
  assumes "\<not> tx_fault throws"
  shows "debit_session throws r d =
    (True,
     \<lparr>committed = insert_transaction (req_user r) (- cost r) ''Uso IA'' ''usage''
         (update_credits (cost r) (req_user r) d),
      working = None\<rparr>,
     [Connect, Begin, UpdateCredits, InsertTransaction, Commit, Release])"
  using assms
  by (simp add: tx_fault_def debit_session_def begin_tx_def statement_def commit_tx_def Let_def)

lemma debit_session_rolls_back:
  assumes "tx_fault throws"
  shows "fst (debit_session throws r d) = False \<and>
    fst (snd (debit_session throws r d)) = \<lparr>committed = d, working = None\<rparr>"
  using assms
  by (auto simp: tx_fault_def debit_session_def abort_def rollback_tx_def begin_tx_def
      statement_def Let_def)

text \<open>
  The calls of the transaction that a debit attempts: the statements up to the first
  one that rejects, that one included.
\<close>

lemma debit_trace_aborted:
  assumes "\<not> throws Connect" and "tx_fault throws"
  shows "snd (snd (debit throws r d)) =
    Connect # takeWhile (\<lambda>q. \<not> throws q) [Begin, UpdateCredits, InsertTransaction, Commit]
      @ take 1 (dropWhile (\<lambda>q. \<not> throws q) [Begin, UpdateCredits, InsertTransaction, Commit])
      @ [Rollback, Release]"
  using assms
  by (auto simp: tx_fault_def debit_def debit_session_def abort_def Let_def)

lemma debit_trace_no_connection:
  assumes "throws Connect"
  shows "snd (snd (debit throws r d)) = [Connect]"
  using assms by (simp add: debit_def debit_session_def)

text \<open>
  What the \<open>ROLLBACK\<close> of line 132 drops: before it, the working copy of the connection
  holds the balance write and the audit write, and the committed store is untouched.
\<close>

lemma rollback_drops_writes:
  "working (statement (insert_transaction i a s k)
      (statement (update_credits c i) (begin_tx \<lparr>committed = d, working = None\<rparr>))) =
     Some (insert_transaction i a s k (update_credits c i d))
   \<and> rollback_tx (statement (insert_transaction i a s k)
      (statement (update_credits c i) (begin_tx \<lparr>committed = d, working = None\<rparr>))) =
     \<lparr>committed = d, working = None\<rparr>"
  by (simp add: begin_tx_def statement_def rollback_tx_def)

text \<open>
  Claim C6. The debit is one unit. When no call of the transaction rejects, the balance
  of the account is decremented by the cost and one \<open>usage\<close> record with the negated
  cost is appended; the connection goes back to the pool with both writes committed and
  no transaction open, after \<open>BEGIN\<close>, the \<open>UPDATE\<close>, the \<open>INSERT\<close> and the \<open>COMMIT\<close>. When
  any call rejects, the store after the debit is the store before it, and the session
  holds no pending write: neither the balance write nor the audit write remains. When
  the rejecting call comes after the connection was obtained (\<open>BEGIN\<close>, the \<open>UPDATE\<close>,
  the \<open>INSERT\<close> or the \<open>COMMIT\<close>), the handler's calls are the statements up to that one,
  then \<open>ROLLBACK\<close>, then the release of the connection; when \<open>pool.connect\<close> itself
  rejects, no statement was sent.
\<close>

theorem debit_atomic:
  "(\<not> tx_fault throws \<longrightarrow>
      fst (debit throws r d) = True \<and>
      users (fst (snd (debit throws r d))) =
        map (\<lambda>u. if uid u = req_user r then u\<lparr>credits := credits u - cost r\<rparr> else u) (users d) \<and>
      transactions (fst (snd (debit throws r d))) =
        transactions d @
        [\<lparr>user_id = req_user r, amount = - cost r, description = ''Uso IA'', tx_type = ''usage''\<rparr>] \<and>
      debit_session throws r d =
        (True, \<lparr>committed = fst (snd (debit throws r d)), working = None\<rparr>,
         [Connect, Begin, UpdateCredits, InsertTransaction, Commit, Release]))
   \<and> (tx_fault throws \<longrightarrow>
      fst (debit throws r d) = False \<and> fst (snd (debit throws r d)) = d \<and>
      fst (snd (debit_session throws r d)) = \<lparr>committed = d, working = None\<rparr>)
   \<and> (throws Connect \<longrightarrow> snd (snd (debit throws r d)) = [Connect])
   \<and> (\<not> throws Connect \<and> tx_fault throws \<longrightarrow>
      snd (snd (debit throws r d)) =
        Connect # takeWhile (\<lambda>q. \<not> throws q) [Begin, UpdateCredits, InsertTransaction, Commit]
          @ take 1 (dropWhile (\<lambda>q. \<not> throws q) [Begin, UpdateCredits, InsertTransaction, Commit])
          @ [Rollback, Release])"
proof -
  have ok: "\<not> tx_fault throws \<longrightarrow>
      fst (debit throws r d) = True \<and>
      users (fst (snd (debit throws r d))) =
        map (\<lambda>u. if uid u = req_user r then u\<lparr>credits := credits u - cost r\<rparr> else u) (users d) \<and>
      transactions (fst (snd (debit throws r d))) =
        transactions d @
        [\<lparr>user_id = req_user r, amount = - cost r, description = ''Uso IA'', tx_type = ''usage''\<rparr>] \<and>
      debit_session throws r d =
        (True, \<lparr>committed = fst (snd (debit throws r d)), working = None\<rparr>,
         [Connect, Begin, UpdateCredits, InsertTransaction, Commit, Release])"
    by (simp add: debit_commits debit_session_commits insert_transaction_def update_credits_def)
  have failed: "tx_fault throws \<longrightarrow>
      fst (debit throws r d) = False \<and> fst (snd (debit throws r d)) = d \<and>
      fst (snd (debit_session throws r d)) = \<lparr>committed = d, working = None\<rparr>"
    using debit_rolls_back [of throws r d] debit_session_rolls_back [of throws r d]
    by simp
  have no_connection: "throws Connect \<longrightarrow> snd (snd (debit throws r d)) = [Connect]"
    by (simp add: debit_trace_no_connection)
  have aborted: "\<not> throws Connect \<and> tx_fault throws \<longrightarrow>
      snd (snd (debit throws r d)) =
        Connect # takeWhile (\<lambda>q. \<not> throws q) [Begin, UpdateCredits, InsertTransaction, Commit]
          @ take 1 (dropWhile (\<lambda>q. \<not> throws q) [Begin, UpdateCredits, InsertTransaction, Commit])
          @ [Rollback, Release]"
    using debit_trace_aborted [of throws r d] by blast
  from ok failed no_connection aborted show ?thesis
    by blast
qed

theorem debit_atomic_witness:
  "fst (debit no_fault (request 30) (store 100)) = True
   \<and> map credits (users (fst (snd (debit no_fault (request 30) (store 100))))) = [70]
   \<and> map amount (transactions (fst (snd (debit no_fault (request 30) (store 100))))) = [- 30]
   \<and> snd (snd (debit_session no_fault (request 30) (store 100))) =
       [Connect, Begin, UpdateCredits, InsertTransaction, Commit, Release]
   \<and> debit (\<lambda>c. c = InsertTransaction) (request 30) (store 100) =
       (False, store 100, [Connect, Begin, UpdateCredits, InsertTransaction, Rollback, Release])
   \<and> fst (snd (debit_session (\<lambda>c. c = InsertTransaction) (request 30) (store 100))) =
       \<lparr>committed = store 100, working = None\<rparr>
   \<and> debit (\<lambda>c. c = Connect) (request 30) (store 100) = (False, store 100, [Connect])"
proof -
  have ok: "fst (debit no_fault (request 30) (store 100)) = True
   \<and> map credits (users (fst (snd (debit no_fault (request 30) (store 100))))) = [70]
   \<and> map amount (transactions (fst (snd (debit no_fault (request 30) (store 100))))) = [- 30]
   \<and> snd (snd (debit_session no_fault (request 30) (store 100))) =
       [Connect, Begin, UpdateCredits, InsertTransaction, Commit, Release]"
    using debit_atomic [of no_fault "request 30" "store 100"]
    by (simp add: tx_fault_def no_fault_def request_def store_def ana_def)
  have aborted: "debit (\<lambda>c. c = InsertTransaction) (request 30) (store 100) =
       (False, store 100, [Connect, Begin, UpdateCredits, InsertTransaction, Rollback, Release])
   \<and> fst (snd (debit_session (\<lambda>c. c = InsertTransaction) (request 30) (store 100))) =
       \<lparr>committed = store 100, working = None\<rparr>"
    using debit_atomic [of "\<lambda>c. c = InsertTransaction" "request 30" "store 100"]
    by (cases "debit (\<lambda>c. c = InsertTransaction) (request 30) (store 100)")
      (simp add: tx_fault_def)
  have no_connection:
    "debit (\<lambda>c. c = Connect) (request 30) (store 100) = (False, store 100, [Connect])"
    using debit_atomic [of "\<lambda>c. c = Connect" "request 30" "store 100"]
    by (cases "debit (\<lambda>c. c = Connect) (request 30) (store 100)") (simp add: tx_fault_def)
  from ok aborted no_connection show ?thesis
    by blast
qed

section \<open>A generation that gives no text\<close>

text \<open>Line 110 throws, or the fetch itself rejects: no text to return.\<close>

lemma generate_None:
  "generate throws reply parse r = None \<longleftrightarrow> (throws Fetch \<or> reply = None \<or> reply = Some [])"
  by (auto simp: generate_def split: option.splits)

lemma generate_and_debit_no_text:
  assumes "throws Fetch \<or> reply = None \<or> reply = Some []"
  shows "generate_and_debit throws reply parse r c d =
     (Response 500 (Error ''Erro ao processar IA.''), d, [Fetch])"
  using assms generate_None [of throws reply parse r]
  by (simp add: generate_and_debit_def)

lemma check_store: "k \<le> c \<Longrightarrow> check_credits no_fault (request k) (store c) = Inr c"
  by (simp add: check_credits_def no_fault_def request_def store_def ana_def select_credits_def)

text \<open>
  Claim C10. When the generation call fails or returns no usable text (\<open>undefined\<close> or
  the empty string), the handler leaves before the debit: the store is the one it found
  (same balances, no new Transaction Record), and a request that had passed the credit
  check is answered with the error response 500, having made no call of the debit.
\<close>

theorem no_charge_without_text:
  assumes "throws Fetch \<or> reply = None \<or> reply = Some []"
  shows "fst (snd (ai_generate throws reply parse r d)) = d
    \<and> (\<forall>c. check_credits throws r d = Inr c \<longrightarrow>
          ai_generate throws reply parse r d =
            (Response 500 (Error ''Erro ao processar IA.''), d, [SelectCredits, Fetch]))"
  using assms
  by (simp add: ai_generate_def generate_and_debit_no_text split: sum.splits)

theorem no_charge_without_text_witness:
  "ai_generate no_fault (Some []) no_json (request 30) (store 100) =
     (Response 500 (Error ''Erro ao processar IA.''), store 100, [SelectCredits, Fetch])"
  using no_charge_without_text [of no_fault "Some []" no_json "request 30" "store 100"]
    check_store [of 30 100]
  by simp

section \<open>The shape of a run of \<open>/ai/generate\<close>\<close>

lemma served_store:
  "k \<le> c \<Longrightarrow>
   ai_generate no_fault (Some ''Laudo'') no_json (request k) (store c) =
    (Response 200 (Generated (Text ''Laudo'') (c - k)),
     \<lparr>users = [ana\<lparr>credits := c - k\<rparr>],
      transactions = [\<lparr>user_id = 1, amount = - k, description = ''Uso IA'', tx_type = ''usage''\<rparr>]\<rparr>,
     [SelectCredits, Fetch, Connect, Begin, UpdateCredits, InsertTransaction, Commit, Release])"
  by (simp add: ai_generate_def check_credits_def select_credits_def generate_and_debit_def
      generate_def debit_def debit_session_def begin_tx_def statement_def commit_tx_def update_credits_def
      insert_transaction_def no_fault_def no_json_def request_def store_def ana_def Let_def)

lemma select_credits_update:
  "select_credits i (insert_transaction j a s k (update_credits x i d)) =
     map (\<lambda>c. c - x) (select_credits i d)"
  by (simp add: select_credits_def insert_transaction_def update_credits_def filter_map o_def)

lemma ai_generate_shape:
  "(\<exists>out. ai_generate throws reply parse r d = (out, d, [SelectCredits]))
   \<or> ((throws Fetch \<or> reply = None \<or> reply = Some []) \<and>
       ai_generate throws reply parse r d =
         (Response 500 (Error ''Erro ao processar IA.''), d, [SelectCredits, Fetch]))
   \<or> (\<not> (throws Fetch \<or> reply = None \<or> reply = Some []) \<and>
       (\<exists>out. ai_generate throws reply parse r d =
          (out, fst (snd (debit throws r d)), SelectCredits # Fetch # snd (snd (debit throws r d)))))"
proof (cases "check_credits throws r d")
  case (Inl out)
  then show ?thesis by (simp add: ai_generate_def)
next
  case (Inr c)
  show ?thesis
  proof (cases "throws Fetch \<or> reply = None \<or> reply = Some []")
    case True
    then show ?thesis
      using Inr by (simp add: ai_generate_def generate_and_debit_no_text)
  next
    case False
    then obtain final where "generate throws reply parse r = Some final"
      using generate_None [of throws reply parse r] by auto
    then show ?thesis
      using Inr False
      by (cases "debit throws r d")
        (auto simp: ai_generate_def generate_and_debit_def split: bool.splits)
  qed
qed

section \<open>The credit check\<close>

text \<open>
  Claim C1, as the code has it. For a request whose account row holds \<open>c\<close> credits: when
  the cost exceeds \<open>c\<close> the request is refused with 402 (insufficient credits), the
  store is unchanged and the generation is not called; when \<open>cost \<le> c\<close>, equality
  included, the request is not refused and the generation is called. The debit then
  takes place when the generation returns text and no call of the transaction rejects:
  the response carries \<open>c - cost\<close>, the balance becomes \<open>c - cost\<close>, which is not
  negative, and one \<open>usage\<close> record of \<open>- cost\<close> is appended.
\<close>

theorem credit_gate:
  assumes "\<not> throws SelectCredits" and "select_credits (req_user r) d = c # cs"
  shows
   "(c < cost r \<longrightarrow>
       ai_generate throws reply parse r d =
         (Response 402 (Error ''Creditos insuficientes.''), d, [SelectCredits]))
    \<and> (cost r \<le> c \<longrightarrow>
         fst (ai_generate throws reply parse r d) \<noteq> Response 402 (Error ''Creditos insuficientes.'') \<and>
         take 2 (snd (snd (ai_generate throws reply parse r d))) = [SelectCredits, Fetch])
    \<and> (cost r \<le> c \<and> \<not> throws Fetch \<and> (\<exists>txt. reply = Some txt \<and> txt \<noteq> []) \<and> \<not> tx_fault throws \<longrightarrow>
         (\<exists>final. fst (ai_generate throws reply parse r d) =
            Response 200 (Generated final (c - cost r))) \<and>
         select_credits (req_user r) (fst (snd (ai_generate throws reply parse r d))) =
            map (\<lambda>x. x - cost r) (c # cs) \<and>
         0 \<le> c - cost r \<and>
         transactions (fst (snd (ai_generate throws reply parse r d))) =
            transactions d @
            [\<lparr>user_id = req_user r, amount = - cost r, description = ''Uso IA'', tx_type = ''usage''\<rparr>])"
proof -
  have low: "c < cost r \<Longrightarrow> check_credits throws r d = Inl (Response 402 (Error ''Creditos insuficientes.''))"
    using assms by (simp add: check_credits_def)
  have high: "cost r \<le> c \<Longrightarrow> check_credits throws r d = Inr c"
    using assms by (simp add: check_credits_def)
  have refused: "c < cost r \<longrightarrow>
       ai_generate throws reply parse r d =
         (Response 402 (Error ''Creditos insuficientes.''), d, [SelectCredits])"
    using low by (simp add: ai_generate_def)
  have passed: "cost r \<le> c \<longrightarrow>
         fst (ai_generate throws reply parse r d) \<noteq> Response 402 (Error ''Creditos insuficientes.'') \<and>
         take 2 (snd (snd (ai_generate throws reply parse r d))) = [SelectCredits, Fetch]"
    using high
    by (auto simp: ai_generate_def generate_and_debit_def split: option.splits prod.splits bool.splits)
  have served: "cost r \<le> c \<and> \<not> throws Fetch \<and> (\<exists>txt. reply = Some txt \<and> txt \<noteq> []) \<and> \<not> tx_fault throws \<longrightarrow>
         (\<exists>final. fst (ai_generate throws reply parse r d) =
            Response 200 (Generated final (c - cost r))) \<and>
         select_credits (req_user r) (fst (snd (ai_generate throws reply parse r d))) =
            map (\<lambda>x. x - cost r) (c # cs) \<and>
         0 \<le> c - cost r \<and>
         transactions (fst (snd (ai_generate throws reply parse r d))) =
            transactions d @
            [\<lparr>user_id = req_user r, amount = - cost r, description = ''Uso IA'', tx_type = ''usage''\<rparr>]"
  proof (intro impI)
    assume a: "cost r \<le> c \<and> \<not> throws Fetch \<and> (\<exists>txt. reply = Some txt \<and> txt \<noteq> []) \<and> \<not> tx_fault throws"
    then have "generate throws reply parse r \<noteq> None"
      using generate_None [of throws reply parse r] by auto
    then obtain final where g: "generate throws reply parse r = Some final"
      by auto
    have run: "ai_generate throws reply parse r d =
       (Response 200 (Generated final (c - cost r)),
        insert_transaction (req_user r) (- cost r) ''Uso IA'' ''usage''
          (update_credits (cost r) (req_user r) d),
        [SelectCredits, Fetch, Connect, Begin, UpdateCredits, InsertTransaction, Commit, Release])"
      using a high g by (simp add: ai_generate_def generate_and_debit_def debit_commits)
    show "(\<exists>final. fst (ai_generate throws reply parse r d) =
            Response 200 (Generated final (c - cost r))) \<and>
         select_credits (req_user r) (fst (snd (ai_generate throws reply parse r d))) =
            map (\<lambda>x. x - cost r) (c # cs) \<and>
         0 \<le> c - cost r \<and>
         transactions (fst (snd (ai_generate throws reply parse r d))) =
            transactions d @
            [\<lparr>user_id = req_user r, amount = - cost r, description = ''Uso IA'', tx_type = ''usage''\<rparr>]"
      using a assms(2)
      by (simp add: run select_credits_update) (simp add: insert_transaction_def update_credits_def)
  qed
  from refused passed served show ?thesis
    by blast
qed


text \<open>
  The claim as stated has the debit proceed whenever the balance covers the cost. With
  balance 30 and cost 30 the check passes, the generation returns the empty string, and
  no debit is made.
\<close>

theorem debit_proceeds_counterexample:
  "select_credits (req_user (request 30)) (store 30) = [30]
   \<and> ai_generate no_fault (Some []) no_json (request 30) (store 30) =
     (Response 500 (Error ''Erro ao processar IA.''), store 30, [SelectCredits, Fetch])"
  by (simp add: ai_generate_def check_store generate_and_debit_no_text)
    (simp add: select_credits_def request_def store_def ana_def)

theorem credit_gate_witness:
  "ai_generate (\<lambda>c. c = Commit) None no_json (request 30) (store 20) =
      (Response 402 (Error ''Creditos insuficientes.''), store 20, [SelectCredits])
   \<and> fst (ai_generate no_fault (Some ''Laudo'') no_json (request 30) (store 30)) =
       Response 200 (Generated (Text ''Laudo'') 0)
   \<and> select_credits 1 (fst (snd (ai_generate no_fault (Some ''Laudo'') no_json (request 30) (store 30)))) = [0]"
proof -
  have s20: "select_credits (req_user (request 30)) (store 20) = [20]"
    and s30: "select_credits (req_user (request 30)) (store 30) = [30]"
    by (simp_all add: select_credits_def request_def store_def ana_def)
  have c: "cost (request 30) = 30" and u: "req_user (request 30) = 1"
    by (simp_all add: request_def)
  have first: "ai_generate (\<lambda>c. c = Commit) None no_json (request 30) (store 20) =
      (Response 402 (Error ''Creditos insuficientes.''), store 20, [SelectCredits])"
    using credit_gate [of "\<lambda>c. c = Commit" "request 30" "store 20" 20 "[]" None no_json] s20
    by (simp add: c)
  have second: "select_credits 1 (fst (snd (ai_generate no_fault (Some ''Laudo'') no_json (request 30) (store 30)))) = [0]"
    using credit_gate [of no_fault "request 30" "store 30" 30 "[]" "Some ''Laudo''" no_json] s30
    by (simp add: c u tx_fault_def no_fault_def)
  show ?thesis
    using first second by (simp add: served_store)
qed


section \<open>The order of the generation and the debit\<close>

text \<open>
  Claim C7, as the code has it. The generation is attempted before the debit: in every
  run whose trace reaches the \<open>UPDATE\<close> of the debit, the fetch stands before it; and the
  store changes only in a run whose fetch did not reject and returned a non-empty text.
  So a failed generation leaves nothing to reverse.
\<close>

theorem generation_precedes_debit:
  "(UpdateCredits \<in> set (snd (snd (ai_generate throws reply parse r d))) \<longrightarrow>
      Fetch \<in> set (takeWhile (\<lambda>c. c \<noteq> UpdateCredits) (snd (snd (ai_generate throws reply parse r d)))))
   \<and> (fst (snd (ai_generate throws reply parse r d)) \<noteq> d \<longrightarrow>
        \<not> throws Fetch \<and> (\<exists>txt. reply = Some txt \<and> txt \<noteq> []))"
proof -
  consider
    (refused) out where "ai_generate throws reply parse r d = (out, d, [SelectCredits])"
  | (no_text) "ai_generate throws reply parse r d =
         (Response 500 (Error ''Erro ao processar IA.''), d, [SelectCredits, Fetch])"
  | (debited) out where "\<not> (throws Fetch \<or> reply = None \<or> reply = Some [])"
      "ai_generate throws reply parse r d =
          (out, fst (snd (debit throws r d)), SelectCredits # Fetch # snd (snd (debit throws r d)))"
    using ai_generate_shape [of throws reply parse r d] by blast
  then show ?thesis
  proof cases
    case refused
    then show ?thesis by simp
  next
    case no_text
    then show ?thesis by simp
  next
    case debited
    from debited(1) have "\<not> throws Fetch" and "\<exists>txt. reply = Some txt \<and> txt \<noteq> []"
      by auto
    then show ?thesis
      using debited(2) by simp
  qed
qed


text \<open>
  The claim as stated has the debit first and kept when the generation fails. With
  balance 100 and cost 30, a generation without text leaves the balance at 100 after the
  fetch has been made, and in the run that succeeds the fetch precedes the statements of
  the debit.
\<close>

theorem debit_before_generation_counterexample:
  "ai_generate no_fault None no_json (request 30) (store 100) =
     (Response 500 (Error ''Erro ao processar IA.''), store 100, [SelectCredits, Fetch])
   \<and> snd (snd (ai_generate no_fault (Some ''Laudo'') no_json (request 30) (store 100))) =
     [SelectCredits, Fetch, Connect, Begin, UpdateCredits, InsertTransaction, Commit, Release]"
  by (simp add: served_store)
   (simp add: ai_generate_def check_store generate_and_debit_no_text)

theorem generation_precedes_debit_witness:
  "Fetch \<in> set (takeWhile (\<lambda>c. c \<noteq> UpdateCredits)
     (snd (snd (ai_generate no_fault (Some ''Laudo'') no_json (request 30) (store 100)))))
   \<and> fst (snd (ai_generate no_fault (Some ''Laudo'') no_json (request 30) (store 100))) \<noteq> store 100"
proof -
  have changed: "fst (snd (ai_generate no_fault (Some ''Laudo'') no_json (request 30) (store 100))) \<noteq> store 100"
    by (simp add: served_store) (simp add: store_def)
  show ?thesis
    using generation_precedes_debit [of no_fault "Some ''Laudo''" no_json "request 30" "store 100"]
      changed
    by (simp add: served_store)
qed


section \<open>Costs that are not positive\<close>

text \<open>
  Claim C8 asks that a non-positive amount be rejected before any write. The handler
  compares the cost with the balance and nothing else: with balance 10, a cost of \<open>- 50\<close>
  passes the check and the debit raises the balance to 60, recording a \<open>usage\<close> of 50; a
  cost of 0 passes too and records a \<open>usage\<close> of 0.
\<close>

theorem nonpositive_cost_accepted:
  "ai_generate no_fault (Some ''Laudo'') no_json (request (- 50)) (store 10) =
    (Response 200 (Generated (Text ''Laudo'') 60),
     \<lparr>users = [ana\<lparr>credits := 60\<rparr>],
      transactions = [\<lparr>user_id = 1, amount = 50, description = ''Uso IA'', tx_type = ''usage''\<rparr>]\<rparr>,
     [SelectCredits, Fetch, Connect, Begin, UpdateCredits, InsertTransaction, Commit, Release])
   \<and> ai_generate no_fault (Some ''Laudo'') no_json (request 0) (store 10) =
    (Response 200 (Generated (Text ''Laudo'') 10),
     \<lparr>users = [ana\<lparr>credits := 10\<rparr>],
      transactions = [\<lparr>user_id = 1, amount = 0, description = ''Uso IA'', tx_type = ''usage''\<rparr>]\<rparr>,
     [SelectCredits, Fetch, Connect, Begin, UpdateCredits, InsertTransaction, Commit, Release])"
  using served_store [of "- 50" 10] served_store [of 0 10] by simp


section \<open>The recharge at login\<close>

lemma elapsed_180: "diffDays 15552000000 0 = 180"
  by (simp add: diffDays_def)

lemma elapsed_179: "diffDays 15465600000 0 = 179"
  by (simp add: diffDays_def)

lemma due_ana: "recharge_due (ana\<lparr>credits := c\<rparr>) 15552000000"
  by (simp add: recharge_due_def ana_def elapsed_180)

lemma not_due_ana: "\<not> recharge_due (ana\<lparr>credits := c\<rparr>) 15465600000"
  by (simp add: recharge_due_def ana_def elapsed_179)

lemma select_ana: "select_user ''ana@sus.br'' (store c) = [ana\<lparr>credits := c\<rparr>]"
  by (simp add: select_user_def store_def ana_def)

lemma login_store:
  "login no_fault accept token 15552000000 15552000000 ''ana@sus.br'' ''senha'' (store c) =
     (Response 200 (LoggedIn ''jwt'' (ana\<lparr>credits := 100, password_hash := []\<rparr>) (Some ''Sua cota SUS foi renovada!'')),
      \<lparr>users = [ana\<lparr>credits := 100, last_recharge_date := 15552000000\<rparr>], transactions = []\<rparr>,
      [SelectUser, BcryptCompare, UpdateRecharge, JwtSign])"
  by (simp add: login_def select_ana due_ana no_fault_def accept_def token_def)
    (simp add: update_recharge_def store_def ana_def)

text \<open>
  Claim C5, as the code has it. For a login that finds the account and passes the
  password check, with no call rejecting: when the account is due, the balance is set
  to 100 and the last recharge date to the store's current date for the rows of that
  id, the Transaction Records are left as they are (no \<open>recharge\<close> record is appended),
  and the response carries the balance 100 with the renewal message; when the account
  is not due, the response carries the stored row, no message, and nothing is written.
\<close>

theorem login_recharge:
  assumes "\<not> throws SelectUser" and "select_user e d = u # us" and "\<not> throws BcryptCompare"
    and "compare pw (password_hash u)" and "\<not> throws UpdateRecharge" and "\<not> throws JwtSign"
  shows
    "(recharge_due u today \<longrightarrow>
        fst (login throws compare sign today cd e pw d) =
          Response 200 (LoggedIn (sign (uid u) (role u)) (u\<lparr>credits := 100, password_hash := []\<rparr>)
            (Some ''Sua cota SUS foi renovada!'')) \<and>
        users (fst (snd (login throws compare sign today cd e pw d))) =
          map (\<lambda>v. if uid v = uid u then v\<lparr>credits := 100, last_recharge_date := cd\<rparr> else v) (users d) \<and>
        transactions (fst (snd (login throws compare sign today cd e pw d))) = transactions d)
     \<and> (\<not> recharge_due u today \<longrightarrow>
        login throws compare sign today cd e pw d =
          (Response 200 (LoggedIn (sign (uid u) (role u)) (u\<lparr>password_hash := []\<rparr>) None), d,
           [SelectUser, BcryptCompare, JwtSign]))"
  using assms by (simp add: login_def update_recharge_def)


text \<open>
  The claim as stated appends a \<open>recharge\<close> record for the delta. The sample account with
  balance 40 is due after 180 days; the login raises the balance to 100 and the
  \<open>transactions\<close> table is still empty.
\<close>

theorem recharge_record_counterexample:
  "recharge_due (ana\<lparr>credits := 40\<rparr>) 15552000000
   \<and> map credits (users (store 40)) = [40]
   \<and> map credits (users (fst (snd (login no_fault accept token 15552000000 15552000000
        ''ana@sus.br'' ''senha'' (store 40))))) = [100]
   \<and> transactions (fst (snd (login no_fault accept token 15552000000 15552000000
        ''ana@sus.br'' ''senha'' (store 40)))) = []"
  by (simp add: due_ana login_store) (simp add: store_def)

theorem login_recharge_witness:
  "fst (login no_fault accept token 15552000000 15552000000 ''ana@sus.br'' ''senha'' (store 40)) =
      Response 200 (LoggedIn ''jwt'' (ana\<lparr>credits := 100, password_hash := []\<rparr>) (Some ''Sua cota SUS foi renovada!''))
   \<and> login no_fault accept token 15465600000 15552000000 ''ana@sus.br'' ''senha'' (store 40) =
      (Response 200 (LoggedIn ''jwt'' (ana\<lparr>credits := 40, password_hash := []\<rparr>) None), store 40,
       [SelectUser, BcryptCompare, JwtSign])"
  using login_recharge [of no_fault "''ana@sus.br''" "store 40" "ana\<lparr>credits := 40\<rparr>" "[]" accept
      "''senha''" 15552000000 token 15552000000]
    login_recharge [of no_fault "''ana@sus.br''" "store 40" "ana\<lparr>credits := 40\<rparr>" "[]" accept
      "''senha''" 15465600000 token 15552000000]
    due_ana [of 40] not_due_ana [of 40] select_ana [of 40]
  by (simp add: no_fault_def accept_def token_def)


section \<open>The ledger invariant\<close>

lemma ledger_sum_debit:
  "ledger_sum j (insert_transaction i (- c) s k (update_credits c i d)) =
     (if j = i then ledger_sum j d - c else ledger_sum j d)"
  by (simp add: ledger_sum_def insert_transaction_def update_credits_def)

lemma balanced_debit:
  assumes "balanced grant d"
  shows "balanced grant (insert_transaction i (- c) s k (update_credits c i d))"
proof -
  have "users (insert_transaction i (- c) s k (update_credits c i d)) =
      map (\<lambda>u. if uid u = i then u\<lparr>credits := credits u - c\<rparr> else u) (users d)"
    by (simp add: insert_transaction_def update_credits_def)
  then show ?thesis
    using assms
    by (auto simp: balanced_def ledger_sum_debit list_all_iff)
qed

lemma ai_generate_store:
  "fst (snd (ai_generate throws reply parse r d)) = d \<or>
   fst (snd (ai_generate throws reply parse r d)) =
     insert_transaction (req_user r) (- cost r) ''Uso IA'' ''usage''
       (update_credits (cost r) (req_user r) d)"
proof (cases "tx_fault throws")
  case True
  then show ?thesis
    using ai_generate_shape [of throws reply parse r d] debit_rolls_back [of throws r d]
    by auto
next
  case False
  then show ?thesis
    using ai_generate_shape [of throws reply parse r d]
    by (auto simp: debit_commits)
qed

lemma login_transactions:
  "transactions (fst (snd (login throws compare sign today cd e pw d))) = transactions d"
  by (simp add: login_def update_recharge_def split: list.splits)

text \<open>
  Claim C2, as the code has it. Every run of \<open>/ai/generate\<close>, whether it debits or
  fails, keeps the equality of each balance with the starting grant plus the sum of the
  account's Transaction Record amounts. A login never changes the sum of an account's
  records, also when it recharges the balance.
\<close>

theorem debit_keeps_ledger:
  "(balanced grant d \<longrightarrow> balanced grant (fst (snd (ai_generate throws reply parse r d))))
   \<and> ledger_sum i (fst (snd (login throws compare sign today cd e pw d))) = ledger_sum i d"
  using ai_generate_store [of throws reply parse r d] balanced_debit [of grant d]
  by (auto simp: ledger_sum_def login_transactions)


text \<open>
  The claim as stated has the recharge keep the equality. With a grant of 40, the
  sample account with balance 40 and no record satisfies it; after the login that
  recharges it, balance 100 and still no record, it does not.
\<close>

theorem recharge_breaks_ledger_counterexample:
  "balanced 40 (store 40)
   \<and> \<not> balanced 40 (fst (snd (login no_fault accept token 15552000000 15552000000
        ''ana@sus.br'' ''senha'' (store 40))))"
  by (simp add: login_store) (simp add: balanced_def ledger_sum_def store_def ana_def)

theorem debit_keeps_ledger_witness:
  "balanced 100 (store 100) \<and>
   balanced 100 (fst (snd (ai_generate no_fault (Some ''Laudo'') no_json (request 30) (store 100))))
   \<and> map credits (users (fst (snd (ai_generate no_fault (Some ''Laudo'') no_json (request 30) (store 100))))) = [70]"
proof -
  have b: "balanced 100 (store 100)"
    by (simp add: balanced_def ledger_sum_def store_def ana_def)
  show ?thesis
    using b debit_keeps_ledger [of 100 "store 100" no_fault "Some ''Laudo''" no_json "request 30"]
    by (simp add: served_store)
qed

section \<open>The credit check and the Recharge Policy\<close>

lemma select_credits_restamp: "select_credits i (restamp a l d) = select_credits i d"
  by (simp add: select_credits_def restamp_def filter_map o_def)

lemma check_credits_restamp: "check_credits throws r (restamp a l d) = check_credits throws r d"
  by (simp add: check_credits_def select_credits_restamp)

lemma debit_statements_restamp:
  "insert_transaction i x s k (update_credits c i (restamp a l d)) =
     restamp a l (insert_transaction i x s k (update_credits c i d))"
  by (simp add: insert_transaction_def update_credits_def restamp_def o_def)

lemma debit_restamp:
  "debit throws r (restamp a l d) =
     (case debit throws r d of (ok, d', tr) \<Rightarrow> (ok, restamp a l d', tr))"
proof (cases "tx_fault throws")
  case True
  then show ?thesis
    by (auto simp: tx_fault_def debit_def debit_session_def abort_def rollback_tx_def begin_tx_def
        statement_def Let_def)
next
  case False
  then show ?thesis
    by (simp add: debit_commits debit_statements_restamp)
qed

text \<open>
  Claim C3, as the code has it. \<open>/ai/generate\<close> compares the stored balance with the
  cost and never evaluates the Recharge Policy: whatever ages and last recharge dates
  the rows carry, the response and the calls are the same and so are the writes.
\<close>

theorem gate_ignores_recharge_policy:
  "ai_generate throws reply parse r (restamp a l d) =
     (case ai_generate throws reply parse r d of (out, d', tr) \<Rightarrow> (out, restamp a l d', tr))"
  by (simp add: ai_generate_def check_credits_restamp generate_and_debit_def debit_restamp
      split: sum.splits option.splits prod.splits bool.splits)


text \<open>
  The claim as stated has the replenished balance compared with the cost. The sample
  account with balance 10 is due after 180 days, and a login at that moment would
  return 100; a request of cost 30 at that moment is refused for insufficient credits.
\<close>

theorem stale_balance_counterexample:
  "recharge_due (ana\<lparr>credits := 10\<rparr>) 15552000000
   \<and> select_user ''ana@sus.br'' (store 10) = [ana\<lparr>credits := 10\<rparr>]
   \<and> fst (login no_fault accept token 15552000000 15552000000 ''ana@sus.br'' ''senha'' (store 10)) =
       Response 200 (LoggedIn ''jwt'' (ana\<lparr>credits := 100, password_hash := []\<rparr>) (Some ''Sua cota SUS foi renovada!''))
   \<and> ai_generate no_fault (Some ''Laudo'') no_json (request 30) (store 10) =
       (Response 402 (Error ''Creditos insuficientes.''), store 10, [SelectCredits])"
  by (simp add: due_ana select_ana login_store)
    (simp add: ai_generate_def check_credits_def select_credits_def no_fault_def request_def
      store_def ana_def)


section \<open>Debits in flight together\<close>

text \<open>A handler that runs alone is its two actions, one after the other.\<close>

lemma handler_is_two_steps:
  "(case step throws reply parse r Waiting d of
      (p, d1) \<Rightarrow> step throws reply parse r p d1) =
   (Finished (fst (ai_generate throws reply parse r d)), fst (snd (ai_generate throws reply parse r d)))"
  by (simp add: step_def ai_generate_def split: sum.splits prod.splits)

lemma step_check:
  "step no_fault reply parse (request k) Waiting \<lparr>users = [ana\<lparr>credits := c\<rparr>], transactions = ts\<rparr> =
     (if c < k then Finished (Response 402 (Error ''Creditos insuficientes.'')) else Checked c,
      \<lparr>users = [ana\<lparr>credits := c\<rparr>], transactions = ts\<rparr>)"
  by (simp add: step_def check_credits_def select_credits_def no_fault_def request_def ana_def)

lemma step_debit:
  "step no_fault (Some ''Laudo'') no_json (request k) (Checked c0)
      \<lparr>users = [ana\<lparr>credits := c\<rparr>], transactions = ts\<rparr> =
     (Finished (Response 200 (Generated (Text ''Laudo'') (c0 - k))),
      \<lparr>users = [ana\<lparr>credits := c - k\<rparr>], transactions = ts @ [usage_record k]\<rparr>)"
  by (simp add: step_def generate_and_debit_def generate_def debit_def debit_session_def begin_tx_def statement_def
      commit_tx_def update_credits_def insert_transaction_def no_fault_def no_json_def
      request_def ana_def usage_record_def Let_def)

lemma step_finished:
  "step throws reply parse r (Finished out) d = (Finished out, d)"
  by (simp add: step_def)

lemma ten_debits_serial:
  "run no_fault (Some ''Laudo'') no_json
      [0, 0, 1, 1, 2, 2, 3, 3, 4, 4, 5, 5, 6, 6, 7, 7, 8, 8, 9, 9] (in_flight 10 10, store 55) =
     ([(request 10, Finished (Response 200 (Generated (Text ''Laudo'') 45))),
       (request 10, Finished (Response 200 (Generated (Text ''Laudo'') 35))),
       (request 10, Finished (Response 200 (Generated (Text ''Laudo'') 25))),
       (request 10, Finished (Response 200 (Generated (Text ''Laudo'') 15))),
       (request 10, Finished (Response 200 (Generated (Text ''Laudo'') 5)))] @
      replicate 5 (request 10, Finished (Response 402 (Error ''Creditos insuficientes.''))),
      \<lparr>users = [ana\<lparr>credits := 5\<rparr>], transactions = replicate 5 (usage_record 10)\<rparr>)"
  by (simp add: in_flight_def store_def step_check step_debit step_finished eval_nat_numeral)

text \<open>
  Claim C9 asks that debits on one account be serialized. Line 96 reads the balance
  outside the transaction of the debit, so requests that all pass the check before any
  of them debits are all served. Two requests of 60 on a balance of 100, checked one
  after the other and then debited: both succeed, and the balance is \<open>- 20\<close>. Ten
  requests of 10 on a balance of 55, all checked and then all debited: ten successes,
  no refusal, a balance of \<open>- 45\<close> and ten \<open>usage\<close> records.
\<close>

theorem unserialized_debits:
  "run no_fault (Some ''Laudo'') no_json [0, 1, 0, 1] (in_flight 2 60, store 100) =
     ([(request 60, Finished (Response 200 (Generated (Text ''Laudo'') 40))),
       (request 60, Finished (Response 200 (Generated (Text ''Laudo'') 40)))],
      \<lparr>users = [ana\<lparr>credits := - 20\<rparr>], transactions = [usage_record 60, usage_record 60]\<rparr>)
   \<and> run no_fault (Some ''Laudo'') no_json
      [0, 1, 2, 3, 4, 5, 6, 7, 8, 9, 0, 1, 2, 3, 4, 5, 6, 7, 8, 9] (in_flight 10 10, store 55) =
     (replicate 10 (request 10, Finished (Response 200 (Generated (Text ''Laudo'') 45))),
      \<lparr>users = [ana\<lparr>credits := - 45\<rparr>], transactions = replicate 10 (usage_record 10)\<rparr>)"
  by (simp add: in_flight_def store_def step_check step_debit eval_nat_numeral)

end
